theory Spec2Isabelle
  imports Main
begin

section \<open>Data model (utils/models.py)\<close>

text \<open>
  The pydantic classes of \<^verbatim>\<open>utils/models.py\<close> as records and datatypes. Fields that
  none of the methods below reads are left out (part metadata, artifact description and
  chunk flags, the status timestamp). Field constraints such as \<^verbatim>\<open>min_length=1\<close> are
  checked by pydantic when an object is constructed, not when a field is assigned, so the
  types below admit empty texts and empty part lists, as the run-time objects do; where a
  method constructs a model object, the constraint that can fail is written out.
\<close>

datatype role = User | Agent

record A2AFile =
  file_name :: "string option"
  mimeType :: "string option"
  bytes :: "string option"
  uri :: "string option"

datatype A2APart =
    A2ATextPart string
  | A2AFilePart A2AFile
  | A2ADataPart "(string \<times> string) list"

record A2AMessage =
  msg_role :: role
  msg_parts :: "A2APart list"
  msg_metadata :: "(string \<times> string) list option"

record A2AArtifact =
  art_name :: "string option"
  art_parts :: "A2APart list"
  art_index :: nat

datatype state_name =
  Submitted | Working | InputRequired | Completed | Canceled | Failed | Unknown

fun state_str :: "state_name \<Rightarrow> string" where
  "state_str Submitted = ''submitted''"
| "state_str Working = ''working''"
| "state_str InputRequired = ''input-required''"
| "state_str Completed = ''completed''"
| "state_str Canceled = ''canceled''"
| "state_str Failed = ''failed''"
| "state_str Unknown = ''unknown''"

record A2ATaskState =
  state :: state_name
  message :: "A2AMessage option"

record A2ATask =
  task_id :: string
  sessionId :: "string option"
  status :: A2ATaskState
  history :: "A2AMessage list"
  artifacts :: "A2AArtifact list"
  task_metadata :: "(string \<times> string) list option"

record A2ATaskSendParams =
  params_id :: string
  params_sessionId :: "string option"
  params_message :: A2AMessage
  params_metadata :: "(string \<times> string) list option"

section \<open>Errors (core/exceptions.py)\<close>

text \<open>
  Every exception a modelled method can raise is a value. \<open>A2AError msg code\<close> is the
  protocol error; \<open>PydanticValidationError\<close> is what constructing a model object raises
  when a field constraint fails; \<open>KeyError\<close> is a failed dictionary subscript;
  \<open>BaseExceptionRaised e\<close> is an exception that does not derive from \<^verbatim>\<open>Exception\<close>, such as
  \<^verbatim>\<open>asyncio.CancelledError\<close>, leaving a method that only catches \<^verbatim>\<open>Exception\<close>.
\<close>

datatype error =
    A2AError string int
  | PydanticValidationError
  | KeyError string
  | ConfigurationError string
  | ConnectionError string
  | ActionFailedError string
  | APIAException string
  | BaseExceptionRaised string

section \<open>Handlers and the skill router\<close>

text \<open>
  A handler receives a task context and either returns an \<^verbatim>\<open>A2ATaskResult\<close> or raises.
  While it runs it may call the two effectful methods of the context, \<^verbatim>\<open>update_status\<close> and
  \<^verbatim>\<open>yield_artifact\<close>; the calls it makes are part of what running it yields.
  \<open>Raises e\<close> carries \<^verbatim>\<open>str(e)\<close> of an exception derived from \<^verbatim>\<open>Exception\<close>;
  \<open>RaisesBase e\<close> is a raise of any other \<^verbatim>\<open>BaseException\<close>, such as
  \<^verbatim>\<open>asyncio.CancelledError\<close>, which an \<^verbatim>\<open>except Exception\<close> clause does not catch.
\<close>

record A2ATaskResult =
  final_status :: A2ATaskState
  result_artifacts :: "A2AArtifact list"

datatype ctx_call =
    UpdateStatus state_name "string option" bool
  | YieldArtifact A2AArtifact

datatype handler_outcome = Returns A2ATaskResult | Raises string | RaisesBase string

text \<open>
  A callable registered with the router: \<open>iscoroutinefunction\<close> is what
  \<^verbatim>\<open>asyncio.iscoroutinefunction\<close> answers for it, \<open>run\<close> is what \<^verbatim>\<open>await handler(context)\<close>
  does on a context holding the given task copy.
\<close>

record callable =
  iscoroutinefunction :: bool
  run :: "A2ATask \<Rightarrow> ctx_call list \<times> handler_outcome"

record A2ATaskRouter =
  handlers :: "string \<rightharpoonup> callable"
  default_handler :: "callable option"

definition router_init :: A2ATaskRouter where
  "router_init = \<lparr>handlers = Map.empty, default_handler = None\<rparr>"

definition register_handler :: "string \<Rightarrow> callable \<Rightarrow> A2ATaskRouter \<Rightarrow> A2ATaskRouter" where
  "register_handler skill_id handler r =
     (if \<not> iscoroutinefunction handler then r
      else r\<lparr>handlers := (handlers r)(skill_id \<mapsto> handler)\<rparr>)"

definition register_default_handler :: "callable \<Rightarrow> A2ATaskRouter \<Rightarrow> A2ATaskRouter" where
  "register_default_handler handler r =
     (if \<not> iscoroutinefunction handler then r
      else r\<lparr>default_handler := Some handler\<rparr>)"

text \<open>
  \<^verbatim>\<open>if skill_id and skill_id in self._handlers\<close>: a skill id that is \<^verbatim>\<open>None\<close> or the empty
  string is falsy, so the specific table is not consulted for it.
\<close>

definition get_handler :: "string option \<Rightarrow> A2ATaskRouter \<Rightarrow> callable option" where
  "get_handler skill_id r =
     (case skill_id of
        None \<Rightarrow> default_handler r
      | Some s \<Rightarrow>
          (if s = [] then default_handler r
           else (case handlers r s of
                   Some h \<Rightarrow> Some h
                 | None \<Rightarrow> default_handler r)))"

fun register_all :: "string \<Rightarrow> callable list \<Rightarrow> A2ATaskRouter \<Rightarrow> A2ATaskRouter" where
  "register_all s [] r = r"
| "register_all s (h # hs) r = register_all s hs (register_handler s h r)"

section \<open>The task manager\<close>

text \<open>
  \<open>tasks\<close> is \<^verbatim>\<open>_tasks\<close>, \<open>task_locks\<close> the key set of \<^verbatim>\<open>_task_locks\<close> (every lock is free
  between two calls of a sequential run, so a lock carries no data), \<open>a2a_dlq\<close> the
  dead-letter list and \<open>kb_metrics\<close> the \<^verbatim>\<open>a2a_tasks\<close> counters of the knowledge base.
  A dead-letter reason is an f-string; it is kept as its template and argument.
\<close>

datatype dlq_reason =
    NoSuitableHandler "string option"
  | HandlerFailed "A2AMessage option"
  | HandlerException string
  | StreamHandlerFailed "A2AMessage option"

record manager =
  tasks :: "string \<rightharpoonup> A2ATask"
  task_locks :: "string set"
  a2a_dlq :: "(string \<times> string \<times> dlq_reason) list"
  kb_metrics :: "string \<rightharpoonup> int"
  router :: A2ATaskRouter

definition manager_init :: "A2ATaskRouter \<Rightarrow> manager" where
  "manager_init r =
     \<lparr>tasks = Map.empty, task_locks = {}, a2a_dlq = [], kb_metrics = Map.empty, router = r\<rparr>"

definition get_task_lock :: "string \<Rightarrow> manager \<Rightarrow> manager" where
  "get_task_lock tid m = m\<lparr>task_locks := insert tid (task_locks m)\<rparr>"

definition get_metric :: "string \<Rightarrow> int \<Rightarrow> manager \<Rightarrow> int" where
  "get_metric metric_name dflt m =
     (case kb_metrics m metric_name of Some v \<Rightarrow> v | None \<Rightarrow> dflt)"

definition update_metric :: "string \<Rightarrow> int \<Rightarrow> manager \<Rightarrow> manager" where
  "update_metric metric_name v m = m\<lparr>kb_metrics := (kb_metrics m)(metric_name \<mapsto> v)\<rparr>"

definition increment_metric :: "string \<Rightarrow> manager \<Rightarrow> manager" where
  "increment_metric metric_name m = update_metric metric_name (get_metric metric_name 0 m + 1) m"

text \<open>
  The class body defines \<^verbatim>\<open>_add_to_dlq\<close> twice; the later definition replaces the earlier
  one, so the method in force only appends the triple.
\<close>

definition add_to_dlq :: "string \<Rightarrow> string \<Rightarrow> dlq_reason \<Rightarrow> manager \<Rightarrow> manager" where
  "add_to_dlq tid method reason m = m\<lparr>a2a_dlq := a2a_dlq m @ [(tid, method, reason)]\<rparr>"

text \<open>The body of the coroutine function \<^verbatim>\<open>_update_task_state\<close>.\<close>

definition update_task_state ::
  "string \<Rightarrow> A2ATaskState option \<Rightarrow> A2AMessage option \<Rightarrow> A2AArtifact list option \<Rightarrow> bool
    \<Rightarrow> manager \<Rightarrow> manager" where
  "update_task_state tid new_status history_append new_artifacts replace_artifacts m =
     (case tasks m tid of
        None \<Rightarrow> m
      | Some task \<Rightarrow>
          (let t1 = (case new_status of Some s \<Rightarrow> task\<lparr>status := s\<rparr> | None \<Rightarrow> task);
               t2 = (case history_append of
                       Some h \<Rightarrow> t1\<lparr>history := history t1 @ [h]\<rparr>
                     | None \<Rightarrow> t1);
               t3 = (case new_artifacts of
                       Some a \<Rightarrow> t2\<lparr>artifacts := a\<rparr>
                     | None \<Rightarrow> (if replace_artifacts then t2\<lparr>artifacts := []\<rparr> else t2))
           in m\<lparr>tasks := (tasks m)(tid \<mapsto> t3)\<rparr>))"

text \<open>
  \<^verbatim>\<open>_update_task_state\<close> is declared \<^verbatim>\<open>async def\<close>, and every caller in the manager writes
  \<^verbatim>\<open>self._update_task_state(...)\<close> as a plain expression statement, without \<^verbatim>\<open>await\<close>.
  Such a call only builds a coroutine object; the object is dropped and its body never
  runs. \<open>call_without_await\<close> is that call: whatever the body would do, the state stays.
\<close>

definition call_without_await :: "(manager \<Rightarrow> manager) \<Rightarrow> manager \<Rightarrow> manager" where
  "call_without_await body m = m"

text \<open>
  Python's \<^verbatim>\<open>xs[k:]\<close>: a negative start counts from the end and is clamped at the front, a
  start past the end is clamped at the end.
\<close>

definition py_slice_from :: "int \<Rightarrow> 'a list \<Rightarrow> 'a list" where
  "py_slice_from k xs =
     (let n = int (length xs);
          start = (if k < 0 then max (n + k) 0 else min k n)
      in drop (nat start) xs)"

definition not_found :: "string \<Rightarrow> error" where
  "not_found tid = A2AError (''Task '' @ tid @ '' not found'') (- 32001)"

definition handle_task_get :: "string \<Rightarrow> int \<Rightarrow> manager \<Rightarrow> (error + A2ATask) \<times> manager" where
  "handle_task_get tid history_length m0 =
     (let m = get_task_lock tid m0 in
      case tasks m tid of
        None \<Rightarrow> (Inl (not_found tid), m)
      | Some task \<Rightarrow>
          (let task_copy =
                 (if 0 \<le> history_length \<and> history task \<noteq> []
                  then task\<lparr>history := py_slice_from (- history_length) (history task)\<rparr>
                  else if history_length = 0 then task\<lparr>history := []\<rparr>
                  else task)
           in (Inr task_copy, m)))"

definition terminal :: "state_name \<Rightarrow> bool" where
  "terminal s = (s = Completed \<or> s = Failed \<or> s = Canceled)"

definition handle_task_cancel :: "string \<Rightarrow> manager \<Rightarrow> (error + A2ATask) \<times> manager" where
  "handle_task_cancel tid m0 =
     (let m = get_task_lock tid m0 in
      case tasks m tid of
        None \<Rightarrow> (Inl (not_found tid), m)
      | Some task \<Rightarrow>
          (let m' =
                 (if terminal (state (status task)) then m
                  else increment_metric ''canceled''
                         (call_without_await
                            (update_task_state tid (Some \<lparr>state = Canceled, message = None\<rparr>)
                               None None True) m))
           in (case tasks m' tid of
                 Some t \<Rightarrow> (Inr t, m')
               | None \<Rightarrow> (Inl (KeyError tid), m'))))"

subsection \<open>Validation and routing of a send\<close>

text \<open>Truthiness of an optional string: \<^verbatim>\<open>None\<close> and the empty string are falsy.\<close>

definition falsy :: "string option \<Rightarrow> bool" where
  "falsy s = (case s of None \<Rightarrow> True | Some v \<Rightarrow> v = [])"

definition py_or :: "string option \<Rightarrow> string \<Rightarrow> string" where
  "py_or s d = (case s of None \<Rightarrow> d | Some v \<Rightarrow> (if v = [] then d else v))"

definition py_str_opt :: "string option \<Rightarrow> string" where
  "py_str_opt s = (case s of None \<Rightarrow> ''None'' | Some v \<Rightarrow> v)"

definition quoted :: "string \<Rightarrow> string" where
  "quoted s = CHR 0x27 # s @ [CHR 0x27]"

definition http_uri :: "string \<Rightarrow> bool" where
  "http_uri u = (take 7 u = ''http://'' \<or> take 8 u = ''https://'')"

definition invalid_params :: "string \<Rightarrow> error" where
  "invalid_params msg = A2AError msg (- 32602)"

text \<open>
  One round of the loop over the message parts. The MIME type test
  (\<^verbatim>\<open>mimeType and not isinstance(mimeType, str)\<close>) cannot fire on a field typed as an
  optional string and has no branch here.
\<close>

fun validate_part :: "A2APart \<Rightarrow> error option" where
  "validate_part (A2AFilePart f) =
     (if falsy (bytes f) \<and> falsy (uri f)
      then Some (invalid_params ''File part must have either bytes or URI'')
      else (case uri f of
              None \<Rightarrow> None
            | Some u \<Rightarrow>
                (if u = [] then None
                 else if http_uri u then None
                 else Some (invalid_params
                        ''Invalid URI format: must start with http:// or https://''))))"
| "validate_part (A2ATextPart t) =
     (if t = [] then Some (invalid_params ''Text part must contain non-empty text'')
      else None)"
| "validate_part (A2ADataPart d) =
     (if d = [] then Some (invalid_params ''Data part must contain non-empty dictionary'')
      else None)"

fun validate_parts :: "A2APart list \<Rightarrow> error option" where
  "validate_parts [] = None"
| "validate_parts (p # ps) =
     (case validate_part p of Some e \<Rightarrow> Some e | None \<Rightarrow> validate_parts ps)"

text \<open>
  \<^verbatim>\<open>_validate_task_params\<close>: \<open>None\<close> when it returns, \<open>Some e\<close> when it raises \<open>e\<close>.
  \<^verbatim>\<open>params.message\<close> is a model object and therefore truthy.
\<close>

definition validate_task_params :: "A2ATaskSendParams \<Rightarrow> error option" where
  "validate_task_params params =
     (if msg_parts (params_message params) = []
      then Some (invalid_params ''Task message must contain at least one part'')
      else validate_parts (msg_parts (params_message params)))"

text \<open>
  The routing key: \<^verbatim>\<open>params.message.metadata.get("skill_id")\<close> when the metadata is a
  non-empty dictionary (an association list with distinct keys).
\<close>

definition skill_id_of :: "A2ATaskSendParams \<Rightarrow> string option" where
  "skill_id_of params =
     (case msg_metadata (params_message params) of
        None \<Rightarrow> None
      | Some md \<Rightarrow> (if md = [] then None else map_of md ''skill_id''))"

definition get_handler_for_task ::
  "A2ATaskSendParams \<Rightarrow> manager \<Rightarrow> (error + callable) \<times> manager" where
  "get_handler_for_task params m =
     (let skill_id = skill_id_of params in
      case get_handler skill_id (router m) of
        None \<Rightarrow>
          (Inl (A2AError (''No suitable agent handler found for skill ''
                           @ quoted (py_str_opt skill_id)) (- 32601)),
           add_to_dlq (params_id params) ''tasks/send'' (NoSuitableHandler skill_id) m)
      | Some h \<Rightarrow> (Inr h, m))"

subsection \<open>Accepting the message under the task lock\<close>

definition reusable :: "state_name \<Rightarrow> bool" where
  "reusable s =
     (s = InputRequired \<or> s = Completed \<or> s = Working \<or> s = Submitted \<or> s = Canceled)"

datatype rejection = InvalidState state_name | ConstructionFailed

definition working_status :: A2ATaskState where
  "working_status = \<lparr>state = Working, message = None\<rparr>"

text \<open>
  The block under the first \<^verbatim>\<open>async with\<close> of \<^verbatim>\<open>handle_task_send\<close> and of
  \<^verbatim>\<open>handle_task_send_subscribe\<close>; the two copies differ only in how they report a task in
  a state that takes no message, which is left to the caller. An existing task is mutated
  in place (history, session, status); a new one is constructed, which pydantic refuses for
  an empty id. The result is the deep copy handed to the handler.
\<close>

definition store_incoming_message ::
  "string \<Rightarrow> string \<Rightarrow> A2ATaskSendParams \<Rightarrow> manager \<Rightarrow> (rejection + A2ATask) \<times> manager" where
  "store_incoming_message tid session_id params m =
     (case tasks m tid of
        Some task \<Rightarrow>
          (if \<not> reusable (state (status task)) then (Inl (InvalidState (state (status task))), m)
           else
             (let task' = task\<lparr>history := history task @ [params_message params],
                               sessionId := Some session_id,
                               status := working_status\<rparr>;
                  m1 = m\<lparr>tasks := (tasks m)(tid \<mapsto> task')\<rparr>;
                  m2 = call_without_await
                         (update_task_state tid (Some (status task')) None None False) m1
              in (Inr task', m2)))
      | None \<Rightarrow>
          (if tid = [] then (Inl ConstructionFailed, m)
           else
             (let task = \<lparr>task_id = tid, sessionId = Some session_id, status = working_status,
                          history = [params_message params], artifacts = [],
                          task_metadata = params_metadata params\<rparr>;
                  m1 = m\<lparr>tasks := (tasks m)(tid \<mapsto> task)\<rparr>
              in (Inr task, increment_metric ''received'' m1))))"

subsection \<open>\<^verbatim>\<open>handle_task_send\<close>\<close>

definition internal_error_message :: "string \<Rightarrow> A2AMessage" where
  "internal_error_message e =
     \<lparr>msg_role = Agent, msg_parts = [A2ATextPart (''Internal error: '' @ e)],
      msg_metadata = None\<rparr>"

definition internal_error_status :: "string \<Rightarrow> A2ATaskState" where
  "internal_error_status e = \<lparr>state = Failed, message = Some (internal_error_message e)\<rparr>"

text \<open>The second \<^verbatim>\<open>async with\<close> of \<^verbatim>\<open>handle_task_send\<close>, after the handler returned.\<close>

definition commit_result :: "string \<Rightarrow> A2ATaskResult \<Rightarrow> manager \<Rightarrow> manager" where
  "commit_result tid result m =
     (let m1 = call_without_await
                 (update_task_state tid (Some (final_status result)) None
                    (Some (result_artifacts result)) True) m
      in if state (final_status result) = Completed then increment_metric ''completed'' m1
         else if state (final_status result) = Failed
         then add_to_dlq tid ''tasks/send'' (HandlerFailed (message (final_status result)))
                (increment_metric ''failed'' m1)
         else m1)"

text \<open>The \<^verbatim>\<open>except Exception as e\<close> branch of \<^verbatim>\<open>handle_task_send\<close>.\<close>

definition commit_exception :: "string \<Rightarrow> string \<Rightarrow> manager \<Rightarrow> manager" where
  "commit_exception tid e m =
     (let m1 = call_without_await
                 (update_task_state tid (Some (internal_error_status e)) None None True) m
      in add_to_dlq tid ''tasks/send'' (HandlerException e) (increment_metric ''failed'' m1))"

text \<open>The last \<^verbatim>\<open>async with\<close>: a copy of the stored task.\<close>

definition return_stored_task :: "string \<Rightarrow> manager \<Rightarrow> (error + A2ATask) \<times> manager" where
  "return_stored_task tid m =
     (let m' = get_task_lock tid m in
      case tasks m' tid of
        Some t \<Rightarrow> (Inr t, m')
      | None \<Rightarrow> (Inl (KeyError tid), m'))"

text \<open>
  \<open>uuid\<close> is the value of \<^verbatim>\<open>str(uuid.uuid4())\<close>. The context of a plain send has no update
  queue, so the handler's \<^verbatim>\<open>update_status\<close> and \<^verbatim>\<open>yield_artifact\<close> calls return at once and
  only its outcome counts. An exception of the handler that does not derive from
  \<^verbatim>\<open>Exception\<close> passes the \<^verbatim>\<open>except\<close> clause and leaves the method.
\<close>

definition handle_task_send ::
  "string \<Rightarrow> A2ATaskSendParams \<Rightarrow> manager \<Rightarrow> (error + A2ATask) \<times> manager" where
  "handle_task_send uuid params m0 =
     (case validate_task_params params of
        Some e \<Rightarrow> (Inl e, m0)
      | None \<Rightarrow>
          (let tid = params_id params;
               session_id = py_or (params_sessionId params) uuid
           in case get_handler_for_task params m0 of
                (Inl e, m1) \<Rightarrow> (Inl e, m1)
              | (Inr handler, m1) \<Rightarrow>
                  (case store_incoming_message tid session_id params (get_task_lock tid m1) of
                     (Inl (InvalidState s), m2) \<Rightarrow>
                       (Inl (A2AError (''Task '' @ tid @ '' in invalid state '' @ state_str s)
                               (- 32004)), m2)
                   | (Inl ConstructionFailed, m2) \<Rightarrow> (Inl PydanticValidationError, m2)
                   | (Inr task_copy, m2) \<Rightarrow>
                       (case snd (run handler task_copy) of
                          RaisesBase e \<Rightarrow> (Inl (BaseExceptionRaised e), m2)
                        | Returns result \<Rightarrow>
                            return_stored_task tid
                              (commit_result tid result (get_task_lock tid m2))
                        | Raises e \<Rightarrow>
                            return_stored_task tid
                              (commit_exception tid e (get_task_lock tid m2))))))"

subsection \<open>\<^verbatim>\<open>handle_task_send_subscribe\<close>\<close>

text \<open>
  What the update queue holds: status events, artifact events, and the error object that
  the manager puts when the stored task takes no message.
\<close>

datatype queue_item =
    StatusUpdateEvent string A2ATaskState bool
  | ArtifactUpdateEvent string A2AArtifact
  | QueuedError error


definition status_message :: "string option \<Rightarrow> A2AMessage option" where
  "status_message message_text =
     (case message_text of
        None \<Rightarrow> None
      | Some t \<Rightarrow>
          (if t = [] then None
           else Some \<lparr>msg_role = Agent, msg_parts = [A2ATextPart t], msg_metadata = None\<rparr>))"

text \<open>
  \<^verbatim>\<open>A2ATaskContext.update_status\<close> on a context that has a queue (a queue object is
  truthy): it constructs the event, which pydantic refuses for an empty task id, and puts
  it on the queue.
\<close>

definition update_status ::
  "string \<Rightarrow> state_name \<Rightarrow> string option \<Rightarrow> bool \<Rightarrow> queue_item list
    \<Rightarrow> error + queue_item list" where
  "update_status tid st message_text final q =
     (if tid = [] then Inl PydanticValidationError
      else Inr (q @ [StatusUpdateEvent tid
                       \<lparr>state = st, message = status_message message_text\<rparr> final]))"

text \<open>
  The puts of the handler's own context calls. The handler only runs after the manager's
  first \<^verbatim>\<open>update_status\<close> went through, so the task id is not empty and none of them fails.
\<close>

fun ctx_call_put :: "string \<Rightarrow> ctx_call \<Rightarrow> queue_item" where
  "ctx_call_put tid (UpdateStatus st message_text final) =
     StatusUpdateEvent tid \<lparr>state = st, message = status_message message_text\<rparr> final"
| "ctx_call_put tid (YieldArtifact a) = ArtifactUpdateEvent tid a"

definition handler_puts :: "string \<Rightarrow> ctx_call list \<Rightarrow> queue_item list \<Rightarrow> queue_item list" where
  "handler_puts tid calls q = q @ map (ctx_call_put tid) calls"

definition validation_error_text :: string where
  "validation_error_text = ''1 validation error for A2ATaskStatusUpdateEventResult''"

definition index_error_text :: string where
  "index_error_text = ''list index out of range''"

text \<open>
  The text of the \<^verbatim>\<open>AttributeError\<close> for \<^verbatim>\<open>.text\<close> on a part of the given class.
\<close>

definition attribute_error_text :: "string \<Rightarrow> string" where
  "attribute_error_text cls =
     quoted cls @ '' object has no attribute '' @ quoted ''text''"

text \<open>
  \<^verbatim>\<open>final_status.message.parts[0].text if final_status.message else None\<close>: \<open>Inl\<close> is the
  text of the exception the subscripts raise.
\<close>

definition final_message_text :: "A2ATaskState \<Rightarrow> string + string option" where
  "final_message_text st =
     (case message st of
        None \<Rightarrow> Inr None
      | Some msg \<Rightarrow>
          (case msg_parts msg of
             [] \<Rightarrow> Inl index_error_text
           | A2ATextPart t # rest \<Rightarrow> Inr (Some t)
           | A2AFilePart f # rest \<Rightarrow> Inl (attribute_error_text ''A2AFilePart'')
           | A2ADataPart d # rest \<Rightarrow> Inl (attribute_error_text ''A2ADataPart'')))"

text \<open>
  The \<^verbatim>\<open>except Exception as e\<close> branch: the final failed event, whose own failure is caught
  and logged, then the dead-letter entry.
\<close>

definition stream_except :: "string \<Rightarrow> string \<Rightarrow> queue_item list \<Rightarrow> manager
    \<Rightarrow> queue_item list \<times> manager" where
  "stream_except tid e q m =
     (let q' = (case update_status tid Failed (Some (''Internal error: '' @ e)) True q of
                  Inr q1 \<Rightarrow> q1
                | Inl err \<Rightarrow> q)
      in (q', add_to_dlq tid ''tasks/sendSubscribe'' (HandlerException e) m))"

text \<open>The \<^verbatim>\<open>finally\<close> block, entered with a final status.\<close>

definition stream_finally ::
  "string \<Rightarrow> A2ATaskState \<Rightarrow> A2AArtifact list option \<Rightarrow> manager \<Rightarrow> manager" where
  "stream_finally tid final_st final_artifacts m =
     (let m1 = call_without_await
                 (update_task_state tid (Some final_st) None final_artifacts True) m;
          metric_category = (if state final_st = Completed then ''completed'' else ''failed'');
          m2 = (if metric_category = ''failed''
                then add_to_dlq tid ''tasks/sendSubscribe''
                       (StreamHandlerFailed (message final_st)) m1
                else m1)
      in increment_metric metric_category m2)"

definition stream_failed ::
  "string \<Rightarrow> string \<Rightarrow> A2AArtifact list option \<Rightarrow> queue_item list \<Rightarrow> manager
    \<Rightarrow> error option \<times> queue_item list \<times> manager" where
  "stream_failed tid e final_artifacts q m =
     (case stream_except tid e q m of
        (q', m') \<Rightarrow>
          (None, q', stream_finally tid (internal_error_status e) final_artifacts m'))"

text \<open>
  The \<^verbatim>\<open>try\<close> statement of \<^verbatim>\<open>handle_task_send_subscribe\<close>: the first working event, the
  handler, the final event. When the handler raises an exception that does not derive from
  \<^verbatim>\<open>Exception\<close>, the \<^verbatim>\<open>except\<close> clause is passed, the \<^verbatim>\<open>finally\<close> block finds no final
  status and does nothing, and the exception leaves the method.
\<close>

definition stream_handler ::
  "string \<Rightarrow> callable \<Rightarrow> A2ATask \<Rightarrow> queue_item list \<Rightarrow> manager
    \<Rightarrow> error option \<times> queue_item list \<times> manager" where
  "stream_handler tid handler task_copy q0 m =
     (case update_status tid Working (Some ''Task submitted for processing...'') False q0 of
        Inl err \<Rightarrow> stream_failed tid validation_error_text None q0 m
      | Inr q1 \<Rightarrow>
          (case run handler task_copy of
             (calls, RaisesBase e) \<Rightarrow>
               (Some (BaseExceptionRaised e), handler_puts tid calls q1, m)
           | (calls, Raises e) \<Rightarrow> stream_failed tid e None (handler_puts tid calls q1) m
           | (calls, Returns result) \<Rightarrow>
               (let q2 = handler_puts tid calls q1 in
                case final_message_text (final_status result) of
                  Inl e \<Rightarrow> stream_failed tid e (Some (result_artifacts result)) q2 m
                | Inr txt \<Rightarrow>
                    (case update_status tid (state (final_status result)) txt True q2 of
                       Inl err \<Rightarrow>
                         stream_failed tid validation_error_text
                           (Some (result_artifacts result)) q2 m
                     | Inr q3 \<Rightarrow>
                         (None, q3,
                          stream_finally tid (final_status result)
                            (Some (result_artifacts result)) m)))))"

text \<open>
  The result is the exception the method raises, if any, the queue and the manager.
  A stored task in a state that takes no message gets an error object on the queue, and
  the method returns.
\<close>

definition handle_task_send_subscribe ::
  "string \<Rightarrow> A2ATaskSendParams \<Rightarrow> queue_item list \<Rightarrow> manager
    \<Rightarrow> error option \<times> queue_item list \<times> manager" where
  "handle_task_send_subscribe uuid params update_queue m0 =
     (case validate_task_params params of
        Some e \<Rightarrow> (Some e, update_queue, m0)
      | None \<Rightarrow>
          (let tid = params_id params;
               session_id = py_or (params_sessionId params) uuid
           in case get_handler_for_task params m0 of
                (Inl e, m1) \<Rightarrow> (Some e, update_queue, m1)
              | (Inr handler, m1) \<Rightarrow>
                  (case store_incoming_message tid session_id params (get_task_lock tid m1) of
                     (Inl (InvalidState s), m2) \<Rightarrow>
                       (None,
                        update_queue @
                          [QueuedError (A2AError (''Task in invalid state '' @ state_str s)
                                          (- 32004))],
                        m2)
                   | (Inl ConstructionFailed, m2) \<Rightarrow>
                       (Some PydanticValidationError, update_queue, m2)
                   | (Inr task_copy, m2) \<Rightarrow>
                       stream_handler tid handler task_copy update_queue m2)))"

section \<open>The outbound protocol client\<close>

text \<open>
  The streaming branch of \<^verbatim>\<open>A2AClientManager.send_task\<close> and \<^verbatim>\<open>get_task\<close>. The network is
  a parameter: the server-sent event stream the POST yields, and the reply to each
  JSON-RPC call. Request ids and the bearer header only decorate a request and are left
  out, as is the token table, which neither method reads.
\<close>

text \<open>
  A line of the event stream, by the way the read loop treats it. An error event carries
  the message and code of the \<^verbatim>\<open>A2AJsonRpcErrorData\<close> built from it (parsed, or the
  fallback with code -32000). \<open>Unprocessable e\<close> is a line whose processing raises another
  exception with text \<open>e\<close>, such as a payload that is not a JSON object.
\<close>

datatype sse_line =
    NotData
  | BlankData
  | UndecodableJson
  | ErrorEvent string int
  | StatusEvent A2ATaskState bool
  | ArtifactEvent A2AArtifact
  | MalformedResult
  | OtherResult
  | OtherJson
  | Unprocessable string

datatype stream_exn = SseA2AError string int | OtherException string

datatype callback_arg =
    CbStatus A2ATaskState bool
  | CbArtifact A2AArtifact
  | CbException stream_exn

text \<open>The stream callback: \<open>Some e\<close> when it raises an exception with text \<open>e\<close>.\<close>

type_synonym stream_callback = "callback_arg \<Rightarrow> string option"

text \<open>
  The loop state when the loop is left, by \<^verbatim>\<open>break\<close> or at the last line: the last status
  read and the stream exception. \<open>Inl e\<close> is an exception that leaves the loop body: the
  callback raising inside the \<^verbatim>\<open>except Exception as e\<close> clause.
\<close>

definition on_processing_error ::
  "stream_callback \<Rightarrow> string \<Rightarrow> A2ATaskState option
    \<Rightarrow> string + (A2ATaskState option \<times> stream_exn option)" where
  "on_processing_error cb e last_known =
     (case cb (CbException (OtherException e)) of
        Some e2 \<Rightarrow> Inl e2
      | None \<Rightarrow> Inr (last_known, Some (OtherException e)))"

fun read_lines ::
  "stream_callback \<Rightarrow> sse_line list \<Rightarrow> A2ATaskState option
    \<Rightarrow> string + (A2ATaskState option \<times> stream_exn option)" where
  "read_lines cb [] last_known = Inr (last_known, None)"
| "read_lines cb (ErrorEvent msg code # ls) last_known =
     (case cb (CbException (SseA2AError msg code)) of
        Some e \<Rightarrow> on_processing_error cb e last_known
      | None \<Rightarrow> Inr (last_known, Some (SseA2AError msg code)))"
| "read_lines cb (StatusEvent st final # ls) last_known =
     (case cb (CbStatus st final) of
        Some e \<Rightarrow> on_processing_error cb e (Some st)
      | None \<Rightarrow> (if final then Inr (Some st, None) else read_lines cb ls (Some st)))"
| "read_lines cb (ArtifactEvent a # ls) last_known =
     (case cb (CbArtifact a) of
        Some e \<Rightarrow> on_processing_error cb e last_known
      | None \<Rightarrow> read_lines cb ls last_known)"
| "read_lines cb (Unprocessable e # ls) last_known = on_processing_error cb e last_known"
| "read_lines cb (NotData # ls) last_known = read_lines cb ls last_known"
| "read_lines cb (BlankData # ls) last_known = read_lines cb ls last_known"
| "read_lines cb (UndecodableJson # ls) last_known = read_lines cb ls last_known"
| "read_lines cb (MalformedResult # ls) last_known = read_lines cb ls last_known"
| "read_lines cb (OtherResult # ls) last_known = read_lines cb ls last_known"
| "read_lines cb (OtherJson # ls) last_known = read_lines cb ls last_known"

text \<open>
  What the streaming POST yields: a network failure, a bad HTTP status, or the lines of
  the body and the way reading the body ends. The client is built with a response hook
  (\<^verbatim>\<open>_log_response\<close>) that awaits \<^verbatim>\<open>response.aread()\<close>, so the whole body is read when the
  response arrives: a body whose read fails raises before the first line is looked at,
  and the lines are then read from the loaded body.
\<close>

datatype stream_end = EndOfStream | RequestErrorRaised | OtherErrorRaised

datatype sse_response =
    RequestFailed
  | HttpStatusError
  | Lines "sse_line list" stream_end

definition stream_connection_error :: "string \<Rightarrow> error" where
  "stream_connection_error url =
     ConnectionError (''Network error during A2A stream request to '' @ url)"

definition stream_request_error :: "string \<Rightarrow> error" where
  "stream_request_error url = APIAException (''Error during A2A stream request to '' @ url)"

text \<open>The outer \<^verbatim>\<open>try\<close> around the stream.\<close>

definition run_stream ::
  "stream_callback \<Rightarrow> sse_response \<Rightarrow> string
    \<Rightarrow> error + (A2ATaskState option \<times> stream_exn option)" where
  "run_stream cb response url =
     (case response of
        RequestFailed \<Rightarrow> Inl (stream_connection_error url)
      | HttpStatusError \<Rightarrow> Inl (stream_request_error url)
      | Lines ls ending \<Rightarrow>
          (case ending of
             RequestErrorRaised \<Rightarrow> Inl (stream_connection_error url)
           | OtherErrorRaised \<Rightarrow> Inl (stream_request_error url)
           | EndOfStream \<Rightarrow>
               (case read_lines cb ls None of
                  Inl e \<Rightarrow> Inl (stream_request_error url)
                | Inr (last_known, stream_exc) \<Rightarrow> Inr (last_known, stream_exc))))"

text \<open>
  A JSON-RPC call and the reply to it. A reply body may hold an \<^verbatim>\<open>error\<close> member (message
  and code of the error object built from it) and a \<^verbatim>\<open>result\<close> member, which
  \<^verbatim>\<open>A2ATask(**result_data)\<close> accepts or refuses.
\<close>

datatype rpc_params = TaskQuery string int

record rpc_call =
  rpc_url :: string
  rpc_method :: string
  rpc_args :: rpc_params

datatype result_payload = TaskPayload A2ATask | UnparsablePayload

record rpc_body =
  body_error :: "(string \<times> int) option"
  body_result :: "result_payload option"

datatype http_reply = NoReply | BadStatus | Body rpc_body

definition send_json_rpc ::
  "(rpc_call \<Rightarrow> http_reply) \<Rightarrow> string \<Rightarrow> string \<Rightarrow> rpc_params
    \<Rightarrow> (error + result_payload) \<times> rpc_call list" where
  "send_json_rpc server target_url method args =
     (let call = \<lparr>rpc_url = target_url, rpc_method = method, rpc_args = args\<rparr> in
      (case server call of
         NoReply \<Rightarrow> Inl (ConnectionError (''Network error during A2A request to '' @ target_url))
       | BadStatus \<Rightarrow> Inl (APIAException (''Generic error during A2A request to '' @ target_url))
       | Body b \<Rightarrow>
           (case body_error b of
              Some (msg, code) \<Rightarrow> Inl (A2AError msg code)
            | None \<Rightarrow>
                (case body_result b of
                   Some r \<Rightarrow> Inr r
                 | None \<Rightarrow>
                     Inl (APIAException (''Generic error during A2A request to '' @ target_url)))),
       [call]))"

text \<open>\<^verbatim>\<open>url.rstrip('/')\<close>, then the default scheme.\<close>

definition rstrip_slash :: "string \<Rightarrow> string" where
  "rstrip_slash u = rev (dropWhile (\<lambda>c. c = CHR ''/'') (rev u))"

definition normalize_url :: "string \<Rightarrow> string" where
  "normalize_url u =
     (let t = rstrip_slash u in if http_uri t then t else ''http://'' @ t)"

definition get_task ::
  "(rpc_call \<Rightarrow> http_reply) \<Rightarrow> string \<Rightarrow> string \<Rightarrow> int
    \<Rightarrow> (error + A2ATask) \<times> rpc_call list" where
  "get_task server target_agent_url tid history_length =
     (case send_json_rpc server (normalize_url target_agent_url) ''tasks/get''
             (TaskQuery tid history_length) of
        (Inl e, calls) \<Rightarrow> (Inl e, calls)
      | (Inr (TaskPayload t), calls) \<Rightarrow> (Inr t, calls)
      | (Inr UnparsablePayload, calls) \<Rightarrow> (Inl PydanticValidationError, calls))"

text \<open>
  \<^verbatim>\<open>A2ATask(id=params.id, sessionId=params.sessionId, status=last_known_task_state)\<close>:
  pydantic refuses an empty id and an empty session id.
\<close>

definition task_from_status :: "A2ATaskSendParams \<Rightarrow> A2ATaskState \<Rightarrow> error + A2ATask" where
  "task_from_status params st =
     (if params_id params = [] then Inl PydanticValidationError
      else if params_sessionId params = Some [] then Inl PydanticValidationError
      else Inr \<lparr>task_id = params_id params, sessionId = params_sessionId params, status = st,
                history = [], artifacts = [], task_metadata = None\<rparr>)"

definition fetch_failed :: "string \<Rightarrow> error" where
  "fetch_failed tid =
     APIAException (''Stream incomplete and failed to fetch final status for task '' @ tid)"

text \<open>The fallback of the last \<^verbatim>\<open>else\<close>: an explicit \<^verbatim>\<open>tasks/get\<close>.\<close>

definition fetch_after_stream ::
  "(rpc_call \<Rightarrow> http_reply) \<Rightarrow> string \<Rightarrow> string \<Rightarrow> (error + A2ATask) \<times> rpc_call list" where
  "fetch_after_stream server target_agent_url tid =
     (case get_task server target_agent_url tid 0 of
        (Inl e, calls) \<Rightarrow> (Inl (fetch_failed tid), calls)
      | (Inr t, calls) \<Rightarrow> (Inr t, calls))"

text \<open>
  \<^verbatim>\<open>send_task\<close> from the point where the streaming method was chosen (a callback was given
  and the card advertises streaming). The result comes with the JSON-RPC calls issued
  after the stream.
\<close>

definition send_task_streaming ::
  "(rpc_call \<Rightarrow> http_reply) \<Rightarrow> sse_response \<Rightarrow> stream_callback \<Rightarrow> string
    \<Rightarrow> A2ATaskSendParams \<Rightarrow> (error + A2ATask) \<times> rpc_call list" where
  "send_task_streaming server response cb target_agent_url params =
     (case run_stream cb response (normalize_url target_agent_url) of
        Inl e \<Rightarrow> (Inl e, [])
      | Inr (last_known, stream_exc) \<Rightarrow>
          (case stream_exc of
             Some x \<Rightarrow> (Inl (APIAException ''A2A stream ended with error''), [])
           | None \<Rightarrow>
               (case last_known of
                  Some st \<Rightarrow> (task_from_status params st, [])
                | None \<Rightarrow> fetch_after_stream server target_agent_url (params_id params))))"

section \<open>The tool-connection manager\<close>

text \<open>
  \<^verbatim>\<open>MCPClientManager\<close>. Sessions and connection contexts are opaque handles. The tool
  processes are a parameter: whether the mock components are in use, what opening a
  transport and initialising a session for a server configuration yields, and what a tool
  call on a session returns. In a sequential run every connection task in the table has
  finished when a method is entered, so an entry holds the outcome of its task; while the
  task runs the entry is \<open>Running\<close>.
\<close>

record MCPServerConfig =
  name :: string
  connection_type :: string
  host :: "string option"
  port :: "int option"

datatype connection_task = Running | Done "error + nat"

record MCPClientManager =
  config :: "MCPServerConfig list"
  sessions :: "string \<rightharpoonup> nat"
  contexts :: "string \<rightharpoonup> nat"
  locks :: "string set"
  connection_tasks :: "string \<rightharpoonup> connection_task"

datatype tool_result = DictResult "(string \<times> string) list" | PlainResult string

record 'p tool_world =
  use_mock :: bool
  open_session :: "MCPServerConfig \<Rightarrow> (nat \<times> nat) option"
  session_call_tool :: "nat \<Rightarrow> string \<Rightarrow> 'p \<Rightarrow> tool_result option"

definition mcp_init :: "MCPServerConfig list \<Rightarrow> MCPClientManager" where
  "mcp_init conf =
     \<lparr>config = conf, sessions = Map.empty, contexts = Map.empty, locks = {},
      connection_tasks = Map.empty\<rparr>"

text \<open>
  The body of the \<^verbatim>\<open>try\<close> statement of \<^verbatim>\<open>_connect\<close>: the context and session it builds, or
  \<open>None\<close> when any step raises (an unsupported connection type, a TCP configuration
  without host or port, a transport or handshake failure).
\<close>

definition falsy_port :: "int option \<Rightarrow> bool" where
  "falsy_port p = (case p of None \<Rightarrow> True | Some v \<Rightarrow> v = 0)"

definition attempt_connection ::
  "'p tool_world \<Rightarrow> MCPServerConfig \<Rightarrow> (nat \<times> nat) option" where
  "attempt_connection w conf =
     (if connection_type conf = ''stdio'' then open_session w conf
      else if connection_type conf = ''tcp''
      then (if use_mock w then open_session w conf
            else if falsy (host conf) then None
            else if falsy_port (port conf) then None
            else open_session w conf)
      else None)"

text \<open>
  \<^verbatim>\<open>_connect\<close>. The missing-configuration error is raised before the \<^verbatim>\<open>try\<close> statement, so
  none of the clean-up of the \<^verbatim>\<open>except\<close> clause runs for it.
\<close>

definition connect :: "'p tool_world \<Rightarrow> string \<Rightarrow> MCPClientManager
    \<Rightarrow> (error + nat) \<times> MCPClientManager" where
  "connect w server_name m0 =
     (let m = m0\<lparr>locks := insert server_name (locks m0)\<rparr> in
      case sessions m server_name of
        Some s \<Rightarrow> (Inr s, m)
      | None \<Rightarrow>
          (case find (\<lambda>c. name c = server_name) (config m) of
             None \<Rightarrow>
               (Inl (ConfigurationError (''MCP server config not found: '' @ server_name)), m)
           | Some server_conf \<Rightarrow>
               (case attempt_connection w server_conf of
                  Some (context, session) \<Rightarrow>
                    (Inr session,
                     m\<lparr>sessions := (sessions m)(server_name \<mapsto> session),
                       contexts := (contexts m)(server_name \<mapsto> context),
                       connection_tasks := (connection_tasks m)(server_name := None)\<rparr>)
                | None \<Rightarrow>
                    (Inl (ConnectionError (''MCP connection failed for '' @ server_name)),
                     m\<lparr>connection_tasks := (connection_tasks m)(server_name := None),
                       sessions := (sessions m)(server_name := None),
                       contexts := (contexts m)(server_name := None)\<rparr>))))"

text \<open>
  \<^verbatim>\<open>get_session\<close>: an existing session, or a new connection task that is awaited. The task
  object stays in the table unless \<^verbatim>\<open>_connect\<close> removed it.
\<close>

definition get_session :: "'p tool_world \<Rightarrow> string \<Rightarrow> MCPClientManager
    \<Rightarrow> (error + nat) \<times> MCPClientManager" where
  "get_session w server_name m0 =
     (case sessions m0 server_name of
        Some s \<Rightarrow> (Inr s, m0)
      | None \<Rightarrow>
          (let m1 = m0\<lparr>locks := insert server_name (locks m0)\<rparr>;
               m2 = m1\<lparr>connection_tasks := (connection_tasks m1)(server_name \<mapsto> Running)\<rparr>
           in case connect w server_name m2 of
                (r, m3) \<Rightarrow>
                  (let m4 = (case connection_tasks m3 server_name of
                               Some t \<Rightarrow>
                                 m3\<lparr>connection_tasks :=
                                      (connection_tasks m3)(server_name \<mapsto> Done r)\<rparr>
                             | None \<Rightarrow> m3)
                   in (case r of
                         Inr s \<Rightarrow> (Inr s, m4)
                       | Inl e \<Rightarrow>
                           (Inl (ConnectionError
                                   (''Failed to get MCP session for '' @ server_name)), m4)))))"

definition tool_call_failed :: "string \<Rightarrow> string \<Rightarrow> error" where
  "tool_call_failed server_name tool_name =
     ActionFailedError (''MCP tool call '' @ server_name @ ''.'' @ tool_name @ '' failed'')"

text \<open>
  \<^verbatim>\<open>call_tool\<close>: the content of the result, \<^verbatim>\<open>result.get("content")\<close> for a dictionary and
  the result itself otherwise; any exception on the way becomes the action-failed error.
\<close>

definition call_tool :: "'p tool_world \<Rightarrow> string \<Rightarrow> string \<Rightarrow> 'p \<Rightarrow> MCPClientManager
    \<Rightarrow> (error + string option) \<times> MCPClientManager" where
  "call_tool w server_name tool_name params m =
     (case get_session w server_name m of
        (Inl e, m') \<Rightarrow> (Inl (tool_call_failed server_name tool_name), m')
      | (Inr session, m') \<Rightarrow>
          (case session_call_tool w session tool_name params of
             None \<Rightarrow> (Inl (tool_call_failed server_name tool_name), m')
           | Some (DictResult d) \<Rightarrow> (Inr (map_of d ''content''), m')
           | Some (PlainResult v) \<Rightarrow> (Inr (Some v), m')))"

text \<open>
  The invariant of the session table: a session or a connection context is registered
  only under the name of a configured server.
\<close>

definition configured :: "MCPClientManager \<Rightarrow> string \<Rightarrow> bool" where
  "configured m server_name = (find (\<lambda>c. name c = server_name) (config m) \<noteq> None)"

definition pool_ok :: "MCPClientManager \<Rightarrow> bool" where
  "pool_ok m =
     ((\<forall>n. sessions m n \<noteq> None \<longrightarrow> configured m n)
      \<and> (\<forall>n. contexts m n \<noteq> None \<longrightarrow> configured m n))"

section \<open>Predicates and example values used in the statements\<close>

text \<open>
  A part that the validation loop refuses: a text part with empty text, a data part with
  an empty dictionary, a file part with neither bytes nor a URI (absent or empty).
\<close>

definition rejected_part :: "A2APart \<Rightarrow> bool" where
  "rejected_part p =
     (case p of
        A2ATextPart t \<Rightarrow> t = []
      | A2ADataPart d \<Rightarrow> d = []
      | A2AFilePart f \<Rightarrow> falsy (bytes f) \<and> falsy (uri f))"




text \<open>
  The request \<^verbatim>\<open>{id: "t1", message: text "ping", metadata: {skill_id: "echo"}}\<close>, an echo
  handler that completes with one artifact holding the parts of the incoming message, a
  handler that raises, a handler that marks one of its own status updates final, and a
  manager holding one stored task.
\<close>

definition ping_message :: A2AMessage where
  "ping_message =
     \<lparr>msg_role = User, msg_parts = [A2ATextPart ''ping''],
      msg_metadata = Some [(''skill_id'', ''echo'')]\<rparr>"

definition ping_params :: A2ATaskSendParams where
  "ping_params =
     \<lparr>params_id = ''t1'', params_sessionId = None, params_message = ping_message,
      params_metadata = None\<rparr>"

definition echo_handler :: callable where
  "echo_handler =
     \<lparr>iscoroutinefunction = True,
      run = (\<lambda>task.
        (case rev (history task) of
           [] \<Rightarrow> ([], Raises ''no incoming message'')
         | msg # earlier \<Rightarrow>
             ([], Returns \<lparr>final_status = \<lparr>state = Completed, message = None\<rparr>,
                           result_artifacts =
                             [\<lparr>art_name = None, art_parts = msg_parts msg, art_index = 0\<rparr>]\<rparr>)))\<rparr>"

definition echo_router :: A2ATaskRouter where
  "echo_router = register_handler ''echo'' echo_handler router_init"

definition failing_handler :: callable where
  "failing_handler = \<lparr>iscoroutinefunction = True, run = (\<lambda>task. ([], Raises ''boom''))\<rparr>"

definition failing_router :: A2ATaskRouter where
  "failing_router = register_handler ''echo'' failing_handler router_init"

definition ping_artifact :: A2AArtifact where
  "ping_artifact = \<lparr>art_name = None, art_parts = [A2ATextPart ''ping''], art_index = 0\<rparr>"

definition stored_task :: "state_name \<Rightarrow> A2ATask" where
  "stored_task s =
     \<lparr>task_id = ''t1'', sessionId = Some ''s1'', status = \<lparr>state = s, message = None\<rparr>,
      history = [ping_message], artifacts = [ping_artifact], task_metadata = None\<rparr>"

definition manager_with :: "A2ATaskRouter \<Rightarrow> A2ATask \<Rightarrow> manager" where
  "manager_with r t = (manager_init r)\<lparr>tasks := [task_id t \<mapsto> t]\<rparr>"

definition eager_handler :: callable where
  "eager_handler =
     \<lparr>iscoroutinefunction = True,
      run = (\<lambda>task. ([UpdateStatus Completed None True],
                      Returns \<lparr>final_status = \<lparr>state = Completed, message = None\<rparr>,
                               result_artifacts = []\<rparr>))\<rparr>"

definition eager_router :: A2ATaskRouter where
  "eager_router = register_handler ''echo'' eager_handler router_init"

text \<open>A handler that is cancelled while it runs: the raise is not an \<^verbatim>\<open>Exception\<close>.\<close>

definition cancelled_handler :: callable where
  "cancelled_handler =
     \<lparr>iscoroutinefunction = True, run = (\<lambda>task. ([], RaisesBase ''CancelledError''))\<rparr>"

definition cancelled_router :: A2ATaskRouter where
  "cancelled_router = register_handler ''echo'' cancelled_handler router_init"

text \<open>
  The last callable of a list of registrations that is a coroutine function, and a
  callable that is not one.
\<close>

fun last_async :: "callable list \<Rightarrow> callable option" where
  "last_async [] = None"
| "last_async (h # hs) =
     (case last_async hs of
        Some later \<Rightarrow> Some later
      | None \<Rightarrow> (if iscoroutinefunction h then Some h else None))"

definition plain_handler :: callable where
  "plain_handler =
     \<lparr>iscoroutinefunction = False,
      run = (\<lambda>task. ([], Raises ''object A2ATaskResult can not be used in await expression''))\<rparr>"

text \<open>
  Lines of an event stream that neither carry an error nor fail to process; the last
  status the read loop has seen when it stops (at a final status, or at the end); whether
  a line is a status event marked final.
\<close>

fun benign :: "sse_line \<Rightarrow> bool" where
  "benign (ErrorEvent msg code) = False"
| "benign (Unprocessable e) = False"
| "benign l = True"

fun last_status :: "sse_line list \<Rightarrow> A2ATaskState option \<Rightarrow> A2ATaskState option" where
  "last_status [] seen = seen"
| "last_status (StatusEvent st final # ls) seen =
     (if final then Some st else last_status ls (Some st))"
| "last_status (l # ls) seen = last_status ls seen"

fun final_line :: "sse_line \<Rightarrow> bool" where
  "final_line (StatusEvent st final) = final"
| "final_line l = False"

definition silent_callback :: stream_callback where
  "silent_callback = (\<lambda>x. None)"

definition get_server :: "rpc_call \<Rightarrow> http_reply" where
  "get_server =
     (\<lambda>c. Body \<lparr>body_error = None, body_result = Some (TaskPayload (stored_task Failed))\<rparr>)"

definition completed_not_final :: "sse_line list" where
  "completed_not_final = [NotData, StatusEvent \<lparr>state = Completed, message = None\<rparr> False, BlankData]"

text \<open>A configured tool server and a tool world in which every connection succeeds.\<close>

definition files_server :: MCPServerConfig where
  "files_server = \<lparr>name = ''files'', connection_type = ''stdio'', host = None, port = None\<rparr>"

definition mock_world :: "unit tool_world" where
  "mock_world =
     \<lparr>use_mock = True, open_session = (\<lambda>c. Some (1, 2)),
      session_call_tool = (\<lambda>s t p. Some (PlainResult ''ok''))\<rparr>"

section \<open>Properties\<close>

lemmas manager_defs =
  manager_init_def get_task_lock_def get_metric_def update_metric_def increment_metric_def
  add_to_dlq_def call_without_await_def not_found_def terminal_def

lemmas send_defs =
  handle_task_send_def validate_task_params_def skill_id_of_def get_handler_for_task_def
  get_handler_def store_incoming_message_def commit_result_def commit_exception_def
  return_stored_task_def py_or_def working_status_def reusable_def


lemmas example_defs =
  ping_params_def ping_message_def echo_router_def echo_handler_def register_handler_def
  router_init_def failing_router_def failing_handler_def stored_task_def manager_with_def
  ping_artifact_def eager_router_def eager_handler_def cancelled_router_def
  cancelled_handler_def

subsection \<open>Committing the handler's result\<close>

text \<open>
  Claim C1: after \<^verbatim>\<open>handle_task_send\<close> of a valid request whose handler returns status S
  and artifacts A, the stored task has status S and artifacts A; for the ping request and
  the echo handler a following get yields \<^verbatim>\<open>completed\<close> and an artifact holding "ping".
  The code does not do this. Evaluated on the ping request against a fresh manager with
  the echo handler registered, the returned task, the stored task and the task a following
  get returns all have status \<^verbatim>\<open>working\<close> and no artifact: the status and the artifacts of
  the result are passed to \<^verbatim>\<open>_update_task_state\<close>, whose coroutine is never awaited.
\<close>

theorem send_echo_leaves_task_working:
  "(case handle_task_send ''u1'' ping_params (manager_init echo_router) of
      (r, m) \<Rightarrow>
        r = Inr \<lparr>task_id = ''t1'', sessionId = Some ''u1'', status = \<lparr>state = Working, message = None\<rparr>,
                 history = [ping_message], artifacts = [], task_metadata = None\<rparr>
        \<and> map_option status (tasks m ''t1'') = Some \<lparr>state = Working, message = None\<rparr>
        \<and> map_option artifacts (tasks m ''t1'') = Some []
        \<and> fst (handle_task_get ''t1'' 0 m) = r)"
  by (simp add: send_defs manager_defs example_defs handle_task_get_def py_slice_from_def Let_def)

subsection \<open>A handler that raises\<close>

text \<open>
  Claim C4: when the handler raises \<open>e\<close>, \<^verbatim>\<open>handle_task_send\<close> does not re-raise, the
  stored task becomes \<^verbatim>\<open>failed\<close> with a message carrying the text of \<open>e\<close>, and one
  dead-letter entry is appended. Evaluated on the ping request against a handler raising
  "boom": the call returns a task (nothing is re-raised) and appends exactly one
  dead-letter entry, but the stored status stays \<^verbatim>\<open>working\<close> with no message, because the
  failed status goes to the never-awaited \<^verbatim>\<open>_update_task_state\<close>.
\<close>

theorem send_raising_handler_leaves_task_working:
  "(case handle_task_send ''u1'' ping_params (manager_init failing_router) of
      (r, m) \<Rightarrow>
        r = Inr \<lparr>task_id = ''t1'', sessionId = Some ''u1'', status = \<lparr>state = Working, message = None\<rparr>,
                 history = [ping_message], artifacts = [], task_metadata = None\<rparr>
        \<and> map_option status (tasks m ''t1'') = Some \<lparr>state = Working, message = None\<rparr>
        \<and> a2a_dlq m = [(''t1'', ''tasks/send'', HandlerException ''boom'')])"
  by (simp add: send_defs manager_defs example_defs Let_def)

subsection \<open>Reading a task\<close>

lemma py_slice_from_neg:
  assumes "1 \<le> n"
  shows "py_slice_from (- n) xs = drop (length xs - nat n) xs"
proof -
  have "nat (int (length xs) - n) = length xs - nat n" using assms by arith
  then show ?thesis using assms by (simp add: py_slice_from_def Let_def max_def)
qed

text \<open>For a history length of at least one the copy holds the last messages.\<close>

lemma handle_task_get_last_n:
  assumes "tasks m tid = Some task" and "1 \<le> n"
  shows "fst (handle_task_get tid n m)
           = Inr (task\<lparr>history := drop (length (history task) - nat n) (history task)\<rparr>)"
  using assms
  by (auto simp: handle_task_get_def get_task_lock_def py_slice_from_neg Let_def)

lemma handle_task_get_keeps_store: "tasks (snd (handle_task_get tid n m)) = tasks m"
  by (simp add: handle_task_get_def get_task_lock_def Let_def split: option.splits)

text \<open>
  Claim C3: \<^verbatim>\<open>handle_task_get(id, N)\<close> returns a copy whose history is the last N messages
  of the stored history, N = 0 giving an empty history, and fails with not-found for an
  unknown id. The code does not do this for N = 0: \<^verbatim>\<open>history[-0:]\<close> is the whole list, and
  the branch that empties the history is only reached when the history is already empty.
  Evaluated on a stored task with one message and N = 0, the copy still holds the message.
\<close>

theorem get_history_length_zero_returns_whole_history:
  "fst (handle_task_get ''t1'' 0 (manager_with router_init (stored_task Completed)))
     = Inr (stored_task Completed)
   \<and> history (stored_task Completed) = [ping_message]"
  by (simp add: handle_task_get_def manager_defs example_defs py_slice_from_def Let_def)

subsection \<open>Cancelling a task\<close>

lemma handle_task_cancel_terminal:
  assumes "tasks m tid = Some task" and "terminal (state (status task))"
  shows "handle_task_cancel tid m = (Inr task, get_task_lock tid m)"
  using assms by (simp add: handle_task_cancel_def get_task_lock_def Let_def)

text \<open>
  Claim C6: \<^verbatim>\<open>handle_task_cancel\<close> returns the unchanged status of a terminal task, and
  otherwise sets the stored status to \<^verbatim>\<open>canceled\<close> and clears the artifacts; two calls in
  a row return the same canceled status. The code does not do the second part. Evaluated
  on a stored task in state \<^verbatim>\<open>working\<close> with one artifact, the call returns the task as it
  was, the stored task keeps status \<^verbatim>\<open>working\<close> and its artifact, and a second call returns
  the same: the canceled status goes to the never-awaited \<^verbatim>\<open>_update_task_state\<close>.
\<close>

theorem cancel_working_task_changes_nothing:
  "(case handle_task_cancel ''t1'' (manager_with router_init (stored_task Working)) of
      (r, m) \<Rightarrow>
        r = Inr (stored_task Working)
        \<and> tasks m ''t1'' = Some (stored_task Working)
        \<and> state (status (stored_task Working)) = Working
        \<and> artifacts (stored_task Working) = [ping_artifact]
        \<and> fst (handle_task_cancel ''t1'' m) = Inr (stored_task Working))"
  by (simp add: handle_task_cancel_def manager_defs example_defs Let_def)

subsection \<open>Validation of a send\<close>

lemma validate_part_code: "validate_part p = Some e \<Longrightarrow> \<exists>msg. e = A2AError msg (- 32602)"
  by (cases p) (auto simp: invalid_params_def split: if_splits option.splits)

lemma validate_parts_code: "validate_parts ps = Some e \<Longrightarrow> \<exists>msg. e = A2AError msg (- 32602)"
  by (induction ps) (auto split: option.splits dest: validate_part_code)

lemma rejected_part_fails: "rejected_part p \<Longrightarrow> validate_part p \<noteq> None"
  by (cases p) (auto simp: rejected_part_def)

lemma rejected_parts_fail: "\<exists>p \<in> set ps. rejected_part p \<Longrightarrow> validate_parts ps \<noteq> None"
  by (induction ps) (auto split: option.splits dest: rejected_part_fails)

lemma validate_task_params_code:
  "validate_task_params params = Some e \<Longrightarrow> \<exists>msg. e = A2AError msg (- 32602)"
  by (auto simp: validate_task_params_def invalid_params_def split: if_splits
           dest: validate_parts_code)

text \<open>
  Claim C7: when the message has no part, or holds a text part with empty text, a data
  part with an empty dictionary, or a file part with neither bytes nor a URI,
  \<^verbatim>\<open>handle_task_send\<close> fails with the invalid-params error (code -32602) and the manager,
  its task store included, is as before: no task record is created.
\<close>

theorem invalid_message_is_rejected:
  assumes "msg_parts (params_message params) = []
           \<or> (\<exists>p \<in> set (msg_parts (params_message params)). rejected_part p)"
  shows "\<exists>msg. handle_task_send uuid params m = (Inl (A2AError msg (- 32602)), m)"
proof -
  have "validate_task_params params \<noteq> None"
    using assms rejected_parts_fail by (auto simp: validate_task_params_def)
  then obtain e where e: "validate_task_params params = Some e" by blast
  then obtain msg where "e = A2AError msg (- 32602)"
    using validate_task_params_code by blast
  with e show ?thesis by (simp add: handle_task_send_def)
qed

theorem invalid_message_is_rejected_witness:
  "(\<exists>p \<in> set (msg_parts (params_message (ping_params\<lparr>params_message :=
        ping_message\<lparr>msg_parts := [A2ATextPart ''ping'', A2ATextPart []]\<rparr>\<rparr>))). rejected_part p)
   \<and> (\<exists>msg. handle_task_send ''u1''
          (ping_params\<lparr>params_message :=
             ping_message\<lparr>msg_parts := [A2ATextPart ''ping'', A2ATextPart []]\<rparr>\<rparr>)
          (manager_init echo_router)
        = (Inl (A2AError msg (- 32602)), manager_init echo_router))
   \<and> msg_parts (params_message (ping_params\<lparr>params_message :=
        ping_message\<lparr>msg_parts := []\<rparr>\<rparr>)) = []
   \<and> (\<exists>msg. handle_task_send ''u1''
          (ping_params\<lparr>params_message := ping_message\<lparr>msg_parts := []\<rparr>\<rparr>)
          (manager_init echo_router)
        = (Inl (A2AError msg (- 32602)), manager_init echo_router))"
proof -
  let ?p1 = "ping_params\<lparr>params_message :=
               ping_message\<lparr>msg_parts := [A2ATextPart ''ping'', A2ATextPart []]\<rparr>\<rparr>"
  let ?p2 = "ping_params\<lparr>params_message := ping_message\<lparr>msg_parts := []\<rparr>\<rparr>"
  have h1: "\<exists>p \<in> set (msg_parts (params_message ?p1)). rejected_part p"
    by (simp add: rejected_part_def)
  have h2: "msg_parts (params_message ?p2) = []" by simp
  have d1: "msg_parts (params_message ?p1) = []
            \<or> (\<exists>p \<in> set (msg_parts (params_message ?p1)). rejected_part p)"
    using h1 by blast
  have d2: "msg_parts (params_message ?p2) = []
            \<or> (\<exists>p \<in> set (msg_parts (params_message ?p2)). rejected_part p)"
    using h2 by blast
  show ?thesis
    using h1 h2 invalid_message_is_rejected [OF d1, of "''u1''" "manager_init echo_router"]
      invalid_message_is_rejected [OF d2, of "''u1''" "manager_init echo_router"]
    by blast
qed

subsection \<open>The final event of a subscription\<close>








text \<open>
  The guard on the stored state: for a stored task in a state that takes no message the
  method puts one error object on the queue, no status event, and returns.
\<close>

lemma subscribe_rejected_state:
  assumes "validate_task_params params = None"
      and "get_handler (skill_id_of params) (router m) = Some handler"
      and "tasks m (params_id params) = Some task"
      and "\<not> reusable (state (status task))"
  shows "handle_task_send_subscribe uuid params q m =
           (None,
            q @ [QueuedError (A2AError (''Task in invalid state ''
                                          @ state_str (state (status task))) (- 32004))],
            get_task_lock (params_id params) m)"
  using assms
  by (simp add: handle_task_send_subscribe_def get_handler_for_task_def
        store_incoming_message_def get_task_lock_def Let_def)




subsection \<open>Registration and lookup in the router\<close>

lemma register_all_other:
  "s' \<noteq> s \<Longrightarrow> handlers (register_all s hs r) s' = handlers r s'"
  by (induction hs arbitrary: r) (simp_all add: register_handler_def)

lemma register_all_default: "default_handler (register_all s hs r) = default_handler r"
  by (induction hs arbitrary: r) (simp_all add: register_handler_def)

lemma register_all_handlers:
  "handlers (register_all s hs r) s =
     (case last_async hs of Some h \<Rightarrow> Some h | None \<Rightarrow> handlers r s)"
  by (induction hs arbitrary: r) (auto simp: register_handler_def split: option.splits)

lemma register_handler_rejects:
  "\<not> iscoroutinefunction h \<Longrightarrow> register_handler s h r = r"
  by (simp add: register_handler_def)

lemma last_async_is_async: "last_async hs = Some h \<Longrightarrow> iscoroutinefunction h \<and> h \<in> set hs"
  by (induction hs) (auto split: option.splits if_splits)

text \<open>
  The empty skill id and a missing skill id never reach the table: the lookup returns the
  default handler, or nothing when there is none.
\<close>

lemma get_handler_empty_skill_id:
  "get_handler (Some []) r = default_handler r" and "get_handler None r = default_handler r"
  by (simp_all add: get_handler_def)

text \<open>
  Claim C8, as amended: for every non-empty skill id \<open>s\<close>, after any sequence of
  \<^verbatim>\<open>register_handler(s, h)\<close> calls \<^verbatim>\<open>get_handler(s)\<close> returns the last callable of the
  sequence that is a coroutine function (what it returned before, when the sequence holds
  none); the callable returned from the sequence is a coroutine function, and registering
  a callable that is not one leaves the router as it was.
\<close>

theorem last_async_registration_wins:
  assumes "s \<noteq> []"
  shows "get_handler (Some s) (register_all s hs r) =
           (case last_async hs of Some h \<Rightarrow> Some h | None \<Rightarrow> get_handler (Some s) r)
       \<and> (case last_async hs of Some h \<Rightarrow> iscoroutinefunction h | None \<Rightarrow> True)
       \<and> (\<not> iscoroutinefunction g \<longrightarrow> register_handler s g r = r)"
  using assms last_async_is_async [of hs]
  by (auto simp: get_handler_def register_all_handlers register_all_default
        register_handler_rejects split: option.splits)

text \<open>
  The claim as stated fails for the empty skill id: a coroutine function registered under
  it is stored, and the lookup for it does not consult the table.
\<close>

theorem empty_skill_id_counterexample:
  "iscoroutinefunction echo_handler
   \<and> handlers (register_all [] [echo_handler] router_init) [] = Some echo_handler
   \<and> get_handler (Some []) (register_all [] [echo_handler] router_init) = None"
  by (simp add: echo_handler_def register_handler_def router_init_def get_handler_def)

theorem last_async_registration_wins_witness:
  "''echo'' \<noteq> []
   \<and> get_handler (Some ''echo'')
       (register_all ''echo'' [echo_handler, failing_handler, plain_handler] router_init)
     = Some failing_handler"
proof -
  have ne: "''echo'' \<noteq> []" by simp
  have la: "last_async [echo_handler, failing_handler, plain_handler] = Some failing_handler"
    by (simp add: echo_handler_def failing_handler_def plain_handler_def)
  show ?thesis
    using ne la
      last_async_registration_wins [OF ne, of "[echo_handler, failing_handler, plain_handler]"
        router_init]
    by simp
qed

subsection \<open>The end of a stream in the client\<close>

lemma read_lines_benign:
  assumes "\<forall>x. cb x = None" and "list_all benign ls"
  shows "read_lines cb ls seen = Inr (last_status ls seen, None)"
  using assms
  by (induction cb ls seen rule: read_lines.induct) auto

lemma run_stream_benign:
  assumes "\<forall>x. cb x = None" and "list_all benign ls"
  shows "run_stream cb (Lines ls EndOfStream) url = Inr (last_status ls None, None)"
  using read_lines_benign [OF assms] by (simp add: run_stream_def)

lemma fetch_after_stream_call:
  "snd (fetch_after_stream server url tid) =
     [\<lparr>rpc_url = normalize_url url, rpc_method = ''tasks/get'', rpc_args = TaskQuery tid 0\<rparr>]"
  by (simp add: fetch_after_stream_def get_task_def send_json_rpc_def Let_def
           split: http_reply.splits option.splits result_payload.splits prod.splits sum.splits)

lemma fetch_after_stream_result:
  "fst (fetch_after_stream server url tid) =
     (case fst (get_task server url tid 0) of
        Inr t \<Rightarrow> Inr t
      | Inl e \<Rightarrow> Inl (fetch_failed tid))"
  by (simp add: fetch_after_stream_def split: prod.splits sum.splits)

text \<open>
  What the client does when a stream ends with no error event, no line that fails to
  process and no raise of the callback: with a status event read, final or not, it
  returns a task built from the last one and issues no call; only with no status event
  read does it issue the \<^verbatim>\<open>tasks/get\<close> call.
\<close>

lemma stream_end_returns_last_status_or_fetches:
  assumes "\<forall>x. cb x = None" and "list_all benign ls"
  shows "send_task_streaming server (Lines ls EndOfStream) cb url params =
           (case last_status ls None of
              Some st \<Rightarrow> (task_from_status params st, [])
            | None \<Rightarrow> fetch_after_stream server url (params_id params))"
  using run_stream_benign [OF assms]
  by (simp add: send_task_streaming_def split: option.splits)

text \<open>
  Claim C5: when the event stream of a streamed \<^verbatim>\<open>send_task\<close> ends without an event
  with \<^verbatim>\<open>final == true\<close>, the client issues an explicit \<^verbatim>\<open>tasks/get\<close> call and returns
  that result, and never makes up a terminal outcome from non-final information. The code
  does not do this. Evaluated on a stream whose only status event has state
  \<^verbatim>\<open>completed\<close> and \<^verbatim>\<open>final == false\<close>, with a callback that never raises and a server that
  would answer \<^verbatim>\<open>tasks/get\<close>: the stream has no final event, the client returns a task
  with status \<^verbatim>\<open>completed\<close> built from that event, and it issues no call. The last status
  is recorded for every status event, and the test before the fallback asks whether any
  status was recorded, not whether a final one was.
\<close>

theorem stream_without_final_event_skips_get:
  "filter final_line completed_not_final = []
   \<and> send_task_streaming get_server (Lines completed_not_final EndOfStream) silent_callback
        ''agent.local/'' ping_params
     = (Inr \<lparr>task_id = ''t1'', sessionId = None, status = \<lparr>state = Completed, message = None\<rparr>,
             history = [], artifacts = [], task_metadata = None\<rparr>, [])"
  by (simp add: completed_not_final_def send_task_streaming_def run_stream_def
        silent_callback_def task_from_status_def ping_params_def)

text \<open>With no status event in the stream the fallback is taken, as the claim says.\<close>

lemma stream_without_status_fetches:
  "send_task_streaming get_server (Lines [NotData, ArtifactEvent ping_artifact, BlankData] EndOfStream)
     silent_callback ''agent.local/'' ping_params
   = (Inr (stored_task Failed),
      [\<lparr>rpc_url = ''http://agent.local'', rpc_method = ''tasks/get'',
        rpc_args = TaskQuery ''t1'' 0\<rparr>])"
  by (simp add: send_task_streaming_def run_stream_def silent_callback_def
        fetch_after_stream_def get_task_def send_json_rpc_def get_server_def
        normalize_url_def rstrip_slash_def http_uri_def ping_params_def Let_def)

subsection \<open>Calling a tool on an unconfigured server\<close>

text \<open>
  The invariant holds for a new manager and is kept by every tool call, whichever server
  it names.
\<close>

lemma pool_ok_init: "pool_ok (mcp_init conf)"
  by (simp add: pool_ok_def mcp_init_def)

lemma connect_config: "config (snd (connect w s m)) = config m"
  by (simp add: connect_def Let_def split: option.splits prod.splits)

lemma pool_ok_connect:
  assumes "pool_ok m"
  shows "pool_ok (snd (connect w s m))"
  using assms
  by (auto simp: pool_ok_def connect_def configured_def Let_def split: option.splits prod.splits)

lemma connect_unconfigured:
  assumes "sessions m s = None" and "\<not> configured m s"
  shows "connect w s m =
           (Inl (ConfigurationError (''MCP server config not found: '' @ s)),
            m\<lparr>locks := insert s (locks m)\<rparr>)"
  using assms by (simp add: connect_def configured_def Let_def)

lemma get_session_unconfigured:
  assumes "sessions m s = None" and "\<not> configured m s"
  shows "get_session w s m =
           (Inl (ConnectionError (''Failed to get MCP session for '' @ s)),
            m\<lparr>locks := insert s (locks m),
              connection_tasks := (connection_tasks m)
                (s \<mapsto> Done (Inl (ConfigurationError (''MCP server config not found: '' @ s))))\<rparr>)"
proof -
  let ?m2 = "m\<lparr>locks := insert s (locks m),
               connection_tasks := (connection_tasks m)(s \<mapsto> Running)\<rparr>"
  have "sessions ?m2 s = None" and "\<not> configured ?m2 s"
    using assms by (simp_all add: configured_def)
  then have "connect w s ?m2 =
      (Inl (ConfigurationError (''MCP server config not found: '' @ s)),
       ?m2\<lparr>locks := insert s (locks ?m2)\<rparr>)"
    by (rule connect_unconfigured)
  then show ?thesis using assms by (simp add: get_session_def Let_def)
qed

lemma pool_ok_get_session:
  assumes "pool_ok m"
  shows "pool_ok (snd (get_session w s m))"
proof (cases "sessions m s")
  case (Some x)
  then show ?thesis using assms by (simp add: get_session_def)
next
  case None
  let ?m2 = "m\<lparr>locks := insert s (locks m),
               connection_tasks := (connection_tasks m)(s \<mapsto> Running)\<rparr>"
  have "pool_ok ?m2" using assms by (simp add: pool_ok_def configured_def)
  then have "pool_ok (snd (connect w s ?m2))" by (rule pool_ok_connect)
  then show ?thesis using None
    by (auto simp: get_session_def Let_def pool_ok_def configured_def
             split: prod.splits option.splits sum.splits)
qed

lemma pool_ok_call_tool:
  assumes "pool_ok m"
  shows "pool_ok (snd (call_tool w s t p m))"
  using pool_ok_get_session [OF assms, of w s]
  by (auto simp: call_tool_def split: prod.splits sum.splits option.splits tool_result.splits)

text \<open>
  Claim C9: for every server name with no entry in the manager's configuration,
  \<^verbatim>\<open>call_tool(server, tool, params)\<close> raises the action-failed error, not the
  configuration or connection error underneath, and no session and no connection context
  is registered for the server afterwards; the two tables are as before.
\<close>

theorem call_tool_unconfigured_server:
  assumes "pool_ok m" and "\<not> configured m server_name"
  shows "fst (call_tool w server_name tool_name params m)
           = Inl (ActionFailedError
                    (''MCP tool call '' @ server_name @ ''.'' @ tool_name @ '' failed''))
       \<and> sessions (snd (call_tool w server_name tool_name params m)) server_name = None
       \<and> contexts (snd (call_tool w server_name tool_name params m)) server_name = None
       \<and> sessions (snd (call_tool w server_name tool_name params m)) = sessions m
       \<and> contexts (snd (call_tool w server_name tool_name params m)) = contexts m"
proof -
  have s: "sessions m server_name = None" and c: "contexts m server_name = None"
    using assms by (auto simp: pool_ok_def)
  show ?thesis
    using get_session_unconfigured [OF s assms(2), of w] s c
    by (simp add: call_tool_def tool_call_failed_def)
qed

theorem call_tool_unconfigured_server_witness:
  "pool_ok (mcp_init [files_server])
   \<and> \<not> configured (mcp_init [files_server]) ''ghost''
   \<and> fst (call_tool mock_world ''ghost'' ''add'' () (mcp_init [files_server]))
       = Inl (ActionFailedError ''MCP tool call ghost.add failed'')
   \<and> sessions (snd (call_tool mock_world ''ghost'' ''add'' () (mcp_init [files_server]))) ''ghost''
       = None
   \<and> contexts (snd (call_tool mock_world ''ghost'' ''add'' () (mcp_init [files_server]))) ''ghost''
       = None"
proof -
  have a: "pool_ok (mcp_init [files_server])" by (simp add: pool_ok_def mcp_init_def)
  have b: "\<not> configured (mcp_init [files_server]) ''ghost''"
    by (simp add: configured_def mcp_init_def files_server_def)
  show ?thesis
    using a b call_tool_unconfigured_server [OF a b, of mock_world "''add''" "()"]
    by (simp add: mcp_init_def)
qed

subsection \<open>Lock bookkeeping of failing reads\<close>

text \<open>
  Claim C10: for a task id that is absent from the task store, \<^verbatim>\<open>handle_task_get\<close> and
  \<^verbatim>\<open>handle_task_cancel\<close> fail with the not-found error (code -32001), and the per-task
  lock entry they created for the id is in the lock table after the call; the task store,
  the dead-letter queue and the counters are as before.
\<close>

theorem failing_read_leaves_lock_entry:
  assumes "tasks m tid = None"
  shows "fst (handle_task_get tid n m) = Inl (A2AError (''Task '' @ tid @ '' not found'') (- 32001))
       \<and> fst (handle_task_cancel tid m) = Inl (A2AError (''Task '' @ tid @ '' not found'') (- 32001))
       \<and> task_locks (snd (handle_task_get tid n m)) = insert tid (task_locks m)
       \<and> task_locks (snd (handle_task_cancel tid m)) = insert tid (task_locks m)
       \<and> tid \<in> task_locks (snd (handle_task_get tid n m))
       \<and> tid \<in> task_locks (snd (handle_task_cancel tid m))
       \<and> tasks (snd (handle_task_get tid n m)) = tasks m
       \<and> tasks (snd (handle_task_cancel tid m)) = tasks m"
  using assms
  by (simp add: handle_task_get_def handle_task_cancel_def get_task_lock_def not_found_def)

theorem failing_read_leaves_lock_entry_witness:
  "tasks (manager_init router_init) ''ghost'' = None
   \<and> fst (handle_task_get ''ghost'' 3 (manager_init router_init))
       = Inl (A2AError ''Task ghost not found'' (- 32001))
   \<and> fst (handle_task_cancel ''ghost'' (manager_init router_init))
       = Inl (A2AError ''Task ghost not found'' (- 32001))
   \<and> task_locks (manager_init router_init) = {}
   \<and> task_locks (snd (handle_task_get ''ghost'' 3 (manager_init router_init))) = {''ghost''}
   \<and> task_locks (snd (handle_task_cancel ''ghost'' (manager_init router_init))) = {''ghost''}"
proof -
  have h: "tasks (manager_init router_init) ''ghost'' = None"
    by (simp add: manager_init_def)
  have e: "task_locks (manager_init router_init) = {}"
    by (simp add: manager_init_def)
  show ?thesis
    using h e failing_read_leaves_lock_entry [OF h, of 3] by simp
qed

end
